theory Spec2Isabelle
  imports Complex_Main "HOL-Library.Word"
begin

section \<open>Values that cross the HTTP boundary\<close>

text \<open>
  The backend of \<^verbatim>\<open>server.js\<close> binds ten routes to handlers that each issue one or two
  SQL statements.  A handler is modelled as a function from the request and the store
  to the response and the store afterwards.

  An uploaded file and a stored BLOB are byte strings.  A response body is JSON, a text
  or a buffer of raw bytes.  A JSON number is modelled by the rational it denotes; no
  handler computes with numbers.
\<close>

type_synonym bytes = "8 word list"

datatype json =
    JNull
  | JBool bool
  | JNum rat
  | JStr string
  | JArr "json list"
  | JObj "(string \<times> json) list"

datatype content = Json json | Text string | Buffer bytes

text \<open>
  \<open>contentType\<close> records an explicit call of \<^verbatim>\<open>res.contentType\<close>; the defaults that
  Express derives from the kind of body are not modelled.  \<open>status\<close> is 200 unless the
  handler calls \<^verbatim>\<open>res.status\<close>.
\<close>

record response =
  status :: nat
  contentType :: "string option"
  content :: content

definition res_json :: "nat \<Rightarrow> json \<Rightarrow> response" where
  "res_json code j = \<lparr>status = code, contentType = None, content = Json j\<rparr>"

definition res_send :: "nat \<Rightarrow> string \<Rightarrow> response" where
  "res_send code s = \<lparr>status = code, contentType = None, content = Text s\<rparr>"

text \<open>
  A property whose value is \<^verbatim>\<open>undefined\<close> is left out by \<^verbatim>\<open>JSON.stringify\<close>; a column
  that is NULL comes back from the store as \<^verbatim>\<open>null\<close>.
\<close>

definition property :: "string \<Rightarrow> ('a \<Rightarrow> json) \<Rightarrow> 'a option \<Rightarrow> (string \<times> json) list" where
  "property k f v = (case v of None \<Rightarrow> [] | Some x \<Rightarrow> [(k, f x)])"

definition nullable :: "('a \<Rightarrow> json) \<Rightarrow> 'a option \<Rightarrow> json" where
  "nullable f v = (case v of None \<Rightarrow> JNull | Some x \<Rightarrow> f x)"

definition JInt :: "int \<Rightarrow> json" where
  "JInt i = JNum (of_int i)"

definition JNat :: "nat \<Rightarrow> json" where
  "JNat n = JNum (of_nat n)"


subsection \<open>Text renderings used by the handlers\<close>

text \<open>
  \<^verbatim>\<open>`/image/${id}`\<close> renders the row id in decimal, and
  \<^verbatim>\<open>image.toString('base64')\<close> renders a buffer in the base64 alphabet with padding.
\<close>

definition digit :: "nat \<Rightarrow> char" where
  "digit n = ''0123456789'' ! (n mod 10)"

fun decimal :: "nat \<Rightarrow> string" where
  "decimal n = (if n < 10 then [digit n] else decimal (n div 10) @ [digit n])"

declare decimal.simps [simp del]

definition imageUrl :: "nat \<Rightarrow> string" where
  "imageUrl i = ''/image/'' @ decimal i"

definition sextet :: "nat \<Rightarrow> char" where
  "sextet n =
     ''ABCDEFGHIJKLMNOPQRSTUVWXYZabcdefghijklmnopqrstuvwxyz0123456789+/'' ! (n mod 64)"

fun base64 :: "bytes \<Rightarrow> string" where
  "base64 [] = []"
| "base64 [a] =
     [sextet (unat a div 4), sextet (unat a mod 4 * 16), CHR ''='', CHR ''='']"
| "base64 [a, b] =
     [sextet (unat a div 4), sextet (unat a mod 4 * 16 + unat b div 16),
      sextet (unat b mod 16 * 4), CHR ''='']"
| "base64 (a # b # c # rest) =
     [sextet (unat a div 4), sextet (unat a mod 4 * 16 + unat b div 16),
      sextet (unat b mod 16 * 4 + unat c div 64), sextet (unat c mod 64)] @ base64 rest"

section \<open>The store\<close>

text \<open>
  The three tables of the \<^verbatim>\<open>CREATE TABLE\<close> statements.  A column is modelled by the
  value it holds under its declared type: text for \<^verbatim>\<open>TEXT\<close>, a rational for \<^verbatim>\<open>REAL\<close>,
  an integer for \<^verbatim>\<open>INTEGER\<close>, bytes for \<^verbatim>\<open>BLOB\<close>; \<open>None\<close> is NULL.  The columns of
  \<^verbatim>\<open>users\<close> are \<^verbatim>\<open>NOT NULL\<close>.
\<close>

record product =
  product_id :: nat
  product_name :: "string option"
  product_price :: "rat option"
  product_stock :: "int option"
  product_unit :: "string option"
  product_category :: "string option"
  product_image :: "bytes option"

record user =
  user_id :: nat
  user_name :: string
  user_username :: string
  user_email :: string
  user_password :: string
  user_address :: string

record bill =
  bill_id :: nat
  bill_date :: "string option"
  bill_total_amount :: "rat option"

text \<open>
  \<open>inventory_seq\<close> and \<open>users_seq\<close> are the \<^verbatim>\<open>AUTOINCREMENT\<close> counters: the largest
  row id the table has ever held.  \<open>faults\<close> is what the store will report for the
  statements to come, in the order they are issued: \<open>Some msg\<close> when the statement fails
  with the error text \<open>msg\<close> (a locked or unreadable database file, a full disk),
  \<open>None\<close> when it is executed.  A store whose list is used up executes every statement.
\<close>

record store =
  inventory :: "product list"
  inventory_seq :: nat
  users :: "user list"
  users_seq :: nat
  bills :: "bill list"
  faults :: "string option list"

definition reported :: "store \<Rightarrow> string option" where
  "reported st = (case faults st of [] \<Rightarrow> None | f # _ \<Rightarrow> f)"

definition served :: "store \<Rightarrow> store" where
  "served st = st\<lparr>faults := tl (faults st)\<rparr>"

text \<open>\<open>quiet n st\<close>: the store reports no failure for the next \<open>n\<close> statements.\<close>

definition quiet :: "nat \<Rightarrow> store \<Rightarrow> bool" where
  "quiet n st = list_all (\<lambda>f. f = None) (take n (faults st))"

text \<open>
  Every statement of the source is one function.  The result is \<open>Inl msg\<close> when the
  callback receives \<^verbatim>\<open>err\<close> with \<^verbatim>\<open>err.message = msg\<close>, and \<open>Inr\<close> of the rows
  (\<^verbatim>\<open>db.get\<close>: the first matching row or none; \<^verbatim>\<open>db.all\<close>: all of them) or of
  \<^verbatim>\<open>this.lastID\<close> otherwise.
\<close>

definition db_get_inventory :: "nat \<Rightarrow> store \<Rightarrow> (string + product option) \<times> store" where
  \<comment> \<open>\<^verbatim>\<open>SELECT ... FROM inventory WHERE id = ?\<close>\<close>
  "db_get_inventory i st =
     (case reported st of
        Some msg \<Rightarrow> (Inl msg, served st)
      | None \<Rightarrow> (Inr (find (\<lambda>r. product_id r = i) (inventory st)), served st))"

definition db_all_inventory :: "string option \<Rightarrow> store \<Rightarrow> (string + product list) \<times> store" where
  \<comment> \<open>\<^verbatim>\<open>SELECT ... FROM inventory\<close>, with \<^verbatim>\<open>WHERE category = ?\<close> when a parameter was pushed\<close>
  "db_all_inventory params st =
     (case reported st of
        Some msg \<Rightarrow> (Inl msg, served st)
      | None \<Rightarrow>
          (Inr (case params of
                  None \<Rightarrow> inventory st
                | Some c \<Rightarrow> filter (\<lambda>r. product_category r = Some c) (inventory st)),
           served st))"

fun largest_id :: "product list \<Rightarrow> nat" where
  "largest_id [] = 0"
| "largest_id (r # rs) = max (product_id r) (largest_id rs)"

definition db_run_insert_inventory ::
  "string option \<Rightarrow> rat option \<Rightarrow> int option \<Rightarrow> string option \<Rightarrow> string option \<Rightarrow>
   bytes option \<Rightarrow> store \<Rightarrow> (string + nat) \<times> store" where
  \<comment> \<open>\<^verbatim>\<open>INSERT INTO inventory (name, price, stock, unit, category, image) VALUES (...)\<close>\<close>
  "db_run_insert_inventory name price stock unit category img st =
     (case reported st of
        Some msg \<Rightarrow> (Inl msg, served st)
      | None \<Rightarrow>
          (let lastID = Suc (max (inventory_seq st) (largest_id (inventory st)));
               row = \<lparr>product_id = lastID, product_name = name, product_price = price,
                      product_stock = stock, product_unit = unit,
                      product_category = category, product_image = img\<rparr>
           in (Inr lastID,
               served (st\<lparr>inventory := inventory st @ [row], inventory_seq := lastID\<rparr>))))"

definition db_run_delete_inventory :: "nat \<Rightarrow> store \<Rightarrow> (string + unit) \<times> store" where
  \<comment> \<open>\<^verbatim>\<open>DELETE FROM inventory WHERE id=?\<close>\<close>
  "db_run_delete_inventory i st =
     (case reported st of
        Some msg \<Rightarrow> (Inl msg, served st)
      | None \<Rightarrow>
          (Inr (), served (st\<lparr>inventory := filter (\<lambda>r. product_id r \<noteq> i) (inventory st)\<rparr>)))"

definition db_run_update_inventory_image ::
  "string option \<Rightarrow> rat option \<Rightarrow> int option \<Rightarrow> string option \<Rightarrow> string option \<Rightarrow>
   bytes \<Rightarrow> nat \<Rightarrow> store \<Rightarrow> (string + unit) \<times> store" where
  \<comment> \<open>\<^verbatim>\<open>UPDATE inventory SET name=?, price=?, stock=?, unit=?, category=?, image=? WHERE id=?\<close>\<close>
  "db_run_update_inventory_image name price stock unit category img i st =
     (case reported st of
        Some msg \<Rightarrow> (Inl msg, served st)
      | None \<Rightarrow>
          (Inr (),
           served (st\<lparr>inventory :=
             map (\<lambda>r. if product_id r = i
                       then r\<lparr>product_name := name, product_price := price,
                              product_stock := stock, product_unit := unit,
                              product_category := category, product_image := Some img\<rparr>
                       else r) (inventory st)\<rparr>)))"

definition db_run_update_inventory ::
  "string option \<Rightarrow> rat option \<Rightarrow> int option \<Rightarrow> string option \<Rightarrow> string option \<Rightarrow>
   nat \<Rightarrow> store \<Rightarrow> (string + unit) \<times> store" where
  \<comment> \<open>\<^verbatim>\<open>UPDATE inventory SET name=?, price=?, stock=?, unit=?, category=? WHERE id=?\<close>\<close>
  "db_run_update_inventory name price stock unit category i st =
     (case reported st of
        Some msg \<Rightarrow> (Inl msg, served st)
      | None \<Rightarrow>
          (Inr (),
           served (st\<lparr>inventory :=
             map (\<lambda>r. if product_id r = i
                       then r\<lparr>product_name := name, product_price := price,
                              product_stock := stock, product_unit := unit,
                              product_category := category\<rparr>
                       else r) (inventory st)\<rparr>)))"

definition db_all_bills :: "store \<Rightarrow> (string + bill list) \<times> store" where
  \<comment> \<open>\<^verbatim>\<open>SELECT * FROM bills\<close>\<close>
  "db_all_bills st =
     (case reported st of
        Some msg \<Rightarrow> (Inl msg, served st)
      | None \<Rightarrow> (Inr (bills st), served st))"

text \<open>
  A parameter that is \<^verbatim>\<open>undefined\<close> is bound as NULL, and \<^verbatim>\<open>column = NULL\<close> holds for no
  row.  Text is compared byte by byte (the default collation).
\<close>

definition db_get_users_username_or_email ::
  "string option \<Rightarrow> string option \<Rightarrow> store \<Rightarrow> (string + user option) \<times> store" where
  \<comment> \<open>\<^verbatim>\<open>SELECT * FROM users WHERE username = ? OR email = ?\<close>\<close>
  "db_get_users_username_or_email username email st =
     (case reported st of
        Some msg \<Rightarrow> (Inl msg, served st)
      | None \<Rightarrow>
          (Inr (find (\<lambda>u. Some (user_username u) = username \<or> Some (user_email u) = email)
                  (users st)),
           served st))"

definition db_get_users_username ::
  "string option \<Rightarrow> store \<Rightarrow> (string + user option) \<times> store" where
  \<comment> \<open>\<^verbatim>\<open>SELECT * FROM users WHERE username = ?\<close>\<close>
  "db_get_users_username username st =
     (case reported st of
        Some msg \<Rightarrow> (Inl msg, served st)
      | None \<Rightarrow> (Inr (find (\<lambda>u. Some (user_username u) = username) (users st)), served st))"

fun largest_user_id :: "user list \<Rightarrow> nat" where
  "largest_user_id [] = 0"
| "largest_user_id (u # us) = max (user_id u) (largest_user_id us)"

text \<open>
  The insert into \<^verbatim>\<open>users\<close> is where the schema's constraints are checked: a NULL in a
  \<^verbatim>\<open>NOT NULL\<close> column, or a username or an email that a row already holds
  (\<^verbatim>\<open>UNIQUE\<close>), makes the statement fail.
\<close>

definition db_run_insert_users ::
  "string option \<Rightarrow> string option \<Rightarrow> string option \<Rightarrow> string option \<Rightarrow> string option \<Rightarrow>
   store \<Rightarrow> (string + nat) \<times> store" where
  \<comment> \<open>\<^verbatim>\<open>INSERT INTO users (name, username, email, password, address) VALUES (...)\<close>\<close>
  "db_run_insert_users name username email password address st =
     (case reported st of
        Some msg \<Rightarrow> (Inl msg, served st)
      | None \<Rightarrow>
          (case (name, username, email, password, address) of
             (Some n, Some u, Some e, Some p, Some a) \<Rightarrow>
               if list_ex (\<lambda>r. user_username r = u) (users st)
               then (Inl ''SQLITE_CONSTRAINT: UNIQUE constraint failed: users.username'',
                     served st)
               else if list_ex (\<lambda>r. user_email r = e) (users st)
               then (Inl ''SQLITE_CONSTRAINT: UNIQUE constraint failed: users.email'',
                     served st)
               else
                 (let lastID = Suc (max (users_seq st) (largest_user_id (users st)));
                      row = \<lparr>user_id = lastID, user_name = n, user_username = u,
                             user_email = e, user_password = p, user_address = a\<rparr>
                  in (Inr lastID,
                      served (st\<lparr>users := users st @ [row], users_seq := lastID\<rparr>)))
           | _ \<Rightarrow> (Inl ''SQLITE_CONSTRAINT: NOT NULL constraint failed'', served st)))"

section \<open>Requests\<close>

text \<open>
  What a handler reads of the request, after the body parsers and the upload
  middleware \<^verbatim>\<open>handleFileUpload\<close> have run: the \<^verbatim>\<open>:id\<close> segment of the path, the
  \<^verbatim>\<open>category\<close> query parameter, the fields of \<^verbatim>\<open>req.body\<close> and \<^verbatim>\<open>req.file\<close>.

  A field that the body lacks is \<open>None\<close> (\<^verbatim>\<open>undefined\<close> in the source).  A field that
  is there is modelled by the value its column stores for it: text for the \<^verbatim>\<open>TEXT\<close>
  columns, the number it denotes for \<^verbatim>\<open>price\<close> and \<^verbatim>\<open>stock\<close>, whether the body carried it
  as a JSON number or as the decimal text of a form field; the response to
  \<^verbatim>\<open>POST /addProduct\<close> echoes it as that value.  The \<^verbatim>\<open>:id\<close> segment is modelled by
  the row id it denotes; a segment that denotes none behaves like an id that no row has.  \<^verbatim>\<open>req.file\<close> is the buffer of the uploaded file
  part, \<open>None\<close> when nothing was uploaded.
\<close>

record body =
  body_name :: "string option"
  body_price :: "rat option"
  body_stock :: "int option"
  body_unit :: "string option"
  body_category :: "string option"
  body_username :: "string option"
  body_email :: "string option"
  body_address :: "string option"
  body_password :: "string option"

record request =
  params_id :: nat
  query_category :: "string option"
  body :: body
  req_file :: "bytes option"

text \<open>
  JavaScript's truthiness on a value that is text or \<^verbatim>\<open>undefined\<close>: only the empty
  text and \<^verbatim>\<open>undefined\<close> are falsy.  A buffer is an object and always truthy, also
  when it is empty.
\<close>

definition truthy :: "string option \<Rightarrow> bool" where
  "truthy v = (case v of None \<Rightarrow> False | Some s \<Rightarrow> s \<noteq> [])"

section \<open>Handlers\<close>

definition not_found :: response where
  "not_found = res_send 404 ''Image not found''"

definition get_image :: "request \<Rightarrow> store \<Rightarrow> response \<times> store" where
  \<comment> \<open>\<^verbatim>\<open>app.get("/image/:id")\<close>\<close>
  "get_image req st =
     (case db_get_inventory (params_id req) st of
        (Inl err, st') \<Rightarrow> (not_found, st')
      | (Inr None, st') \<Rightarrow> (not_found, st')
      | (Inr (Some row), st') \<Rightarrow>
          (case product_image row of
             None \<Rightarrow> (not_found, st')
           | Some img \<Rightarrow>
               (\<lparr>status = 200, contentType = Some ''image/jpeg'', content = Buffer img\<rparr>,
                st')))"

definition productWithBase64 :: "product \<Rightarrow> json" where
  "productWithBase64 product =
     JObj [(''id'', JNat (product_id product)),
           (''name'', nullable JStr (product_name product)),
           (''price'', nullable JNum (product_price product)),
           (''stock'', nullable JInt (product_stock product)),
           (''unit'', nullable JStr (product_unit product)),
           (''category'', nullable JStr (product_category product)),
           (''image'', case product_image product of
                         None \<Rightarrow> JNull
                       | Some img \<Rightarrow> JStr (base64 img))]"

definition error_json :: "string \<Rightarrow> json" where
  "error_json msg = JObj [(''error'', JStr msg)]"

definition message_json :: "string \<Rightarrow> json" where
  "message_json msg = JObj [(''message'', JStr msg)]"

definition get_products :: "request \<Rightarrow> store \<Rightarrow> response \<times> store" where
  \<comment> \<open>\<^verbatim>\<open>app.get("/products")\<close>\<close>
  "get_products req st =
     (let category = query_category req;
          params = (if truthy category then category else None)
      in case db_all_inventory params st of
           (Inl msg, st') \<Rightarrow> (res_json 500 (error_json msg), st')
         | (Inr rows, st') \<Rightarrow> (res_json 200 (JArr (map productWithBase64 rows)), st'))"

definition post_addProduct :: "request \<Rightarrow> store \<Rightarrow> response \<times> store" where
  \<comment> \<open>\<^verbatim>\<open>app.post("/addProduct", handleFileUpload, ...)\<close>\<close>
  "post_addProduct req st =
     (let b = body req; img = req_file req
      in case db_run_insert_inventory (body_name b) (body_price b) (body_stock b)
                (body_unit b) (body_category b) img st of
           (Inl msg, st') \<Rightarrow> (res_json 500 (error_json msg), st')
         | (Inr lastID, st') \<Rightarrow>
             (res_json 200
                (JObj [(''message'', JStr ''Product added!''),
                       (''product'',
                        JObj ([(''id'', JNat lastID)]
                              @ property ''name'' JStr (body_name b)
                              @ property ''price'' JNum (body_price b)
                              @ property ''stock'' JInt (body_stock b)
                              @ property ''unit'' JStr (body_unit b)
                              @ property ''category'' JStr (body_category b)
                              @ [(''imageUrl'', case img of
                                                  None \<Rightarrow> JNull
                                                | Some _ \<Rightarrow> JStr (imageUrl lastID))]))]),
              st'))"

definition inventory_json :: "product \<Rightarrow> json" where
  "inventory_json row =
     JObj [(''id'', JNat (product_id row)),
           (''name'', nullable JStr (product_name row)),
           (''price'', nullable JNum (product_price row)),
           (''stock'', nullable JInt (product_stock row)),
           (''unit'', nullable JStr (product_unit row)),
           (''category'', nullable JStr (product_category row)),
           (''image'', case product_image row of
                         None \<Rightarrow> JNull
                       | Some _ \<Rightarrow> JStr (imageUrl (product_id row)))]"

definition get_getInventory :: "request \<Rightarrow> store \<Rightarrow> response \<times> store" where
  \<comment> \<open>\<^verbatim>\<open>app.get("/getInventory")\<close>\<close>
  "get_getInventory req st =
     (case db_all_inventory None st of
        (Inl msg, st') \<Rightarrow> (res_json 500 (error_json msg), st')
      | (Inr rows, st') \<Rightarrow> (res_json 200 (JArr (map inventory_json rows)), st'))"

text \<open>
  \<^verbatim>\<open>bcrypt.hash\<close> and \<^verbatim>\<open>bcrypt.compare\<close> belong to a library; the handlers take them as
  parameters.  \<open>bcrypt_hash password rounds\<close> is \<open>Inl\<close> when the callback receives an
  error and \<open>Inr\<close> of the hash otherwise; the salt is drawn inside the library.
  \<open>bcrypt_compare password hash\<close> is \<open>Inl\<close> when the promise is rejected and \<open>Inr\<close> of
  the verdict otherwise.
\<close>

definition post_register ::
  "(string option \<Rightarrow> nat \<Rightarrow> string + string) \<Rightarrow> request \<Rightarrow> store \<Rightarrow> response \<times> store" where
  \<comment> \<open>\<^verbatim>\<open>app.post("/register")\<close>\<close>
  "post_register bcrypt_hash req st =
     (let b = body req
      in if \<not> truthy (body_name b) \<or> \<not> truthy (body_username b) \<or> \<not> truthy (body_email b)
            \<or> \<not> truthy (body_address b) \<or> \<not> truthy (body_password b)
         then (res_json 400 (message_json ''All fields are required''), st)
         else
           (case db_get_users_username_or_email (body_username b) (body_email b) st of
              (Inl err, st1) \<Rightarrow> (res_json 500 (message_json ''Database error''), st1)
            | (Inr (Some row), st1) \<Rightarrow>
                (res_json 400 (message_json ''Username or Email already exists''), st1)
            | (Inr None, st1) \<Rightarrow>
                (case bcrypt_hash (body_password b) 10 of
                   Inl err \<Rightarrow> (res_json 500 (message_json ''Error hashing password''), st1)
                 | Inr hashedPassword \<Rightarrow>
                     (case db_run_insert_users (body_name b) (body_username b) (body_email b)
                             (Some hashedPassword) (body_address b) st1 of
                        (Inl err, st2) \<Rightarrow>
                          (res_json 500 (message_json ''Error inserting user''), st2)
                      | (Inr lastID, st2) \<Rightarrow>
                          (res_json 201 (message_json ''User registered successfully''),
                           st2)))))"

definition login_json :: "bool \<Rightarrow> string \<Rightarrow> json" where
  "login_json success msg = JObj [(''success'', JBool success), (''message'', JStr msg)]"

text \<open>
  The callback of the login handler is \<^verbatim>\<open>async\<close>: when the awaited comparison is
  rejected, the exception leaves the callback and the handler sends nothing (\<open>None\<close>).
\<close>

definition post_login ::
  "(string option \<Rightarrow> string \<Rightarrow> string + bool) \<Rightarrow> request \<Rightarrow> store \<Rightarrow>
   response option \<times> store" where
  \<comment> \<open>\<^verbatim>\<open>app.post("/login")\<close>\<close>
  "post_login bcrypt_compare req st =
     (let b = body req
      in case db_get_users_username (body_username b) st of
           (Inl err, st') \<Rightarrow> (Some (res_json 500 (login_json False ''Database error'')), st')
         | (Inr None, st') \<Rightarrow> (Some (res_json 401 (login_json False ''Invalid Username!'')), st')
         | (Inr (Some user), st') \<Rightarrow>
             (case bcrypt_compare (body_password b) (user_password user) of
                Inl rejected \<Rightarrow> (None, st')
              | Inr validPassword \<Rightarrow>
                  if \<not> validPassword
                  then (Some (res_json 401 (login_json False ''Invalid Password!'')), st')
                  else (Some (res_json 200 (login_json True ''Login successful!'')), st')))"

definition get_product :: "request \<Rightarrow> store \<Rightarrow> response \<times> store" where
  \<comment> \<open>\<^verbatim>\<open>app.get("/product/:id")\<close>\<close>
  "get_product req st =
     (case db_get_inventory (params_id req) st of
        (Inl msg, st') \<Rightarrow> (res_json 500 (error_json msg), st')
      | (Inr None, st') \<Rightarrow> (res_json 404 (error_json ''Product not found''), st')
      | (Inr (Some product), st') \<Rightarrow> (res_json 200 (productWithBase64 product), st'))"

definition bill_json :: "bill \<Rightarrow> json" where
  "bill_json row =
     JObj [(''id'', JNat (bill_id row)),
           (''date'', nullable JStr (bill_date row)),
           (''total_amount'', nullable JNum (bill_total_amount row))]"

definition get_getBills :: "request \<Rightarrow> store \<Rightarrow> response \<times> store" where
  \<comment> \<open>\<^verbatim>\<open>app.get("/getBills")\<close>\<close>
  "get_getBills req st =
     (case db_all_bills st of
        (Inl msg, st') \<Rightarrow> (res_json 500 (error_json msg), st')
      | (Inr rows, st') \<Rightarrow> (res_json 200 (JArr (map bill_json rows)), st'))"

definition delete_deleteProduct :: "request \<Rightarrow> store \<Rightarrow> response \<times> store" where
  \<comment> \<open>\<^verbatim>\<open>app.delete("/deleteProduct/:id")\<close>\<close>
  "delete_deleteProduct req st =
     (case db_run_delete_inventory (params_id req) st of
        (Inl msg, st') \<Rightarrow> (res_json 500 (error_json msg), st')
      | (Inr _, st') \<Rightarrow> (res_json 200 (message_json ''Deleted!''), st'))"

definition put_updateProduct :: "request \<Rightarrow> store \<Rightarrow> response \<times> store" where
  \<comment> \<open>\<^verbatim>\<open>app.put("/updateProduct/:id", handleFileUpload, ...)\<close>\<close>
  "put_updateProduct req st =
     (let b = body req
      in case (case req_file req of
                 Some img \<Rightarrow>
                   db_run_update_inventory_image (body_name b) (body_price b) (body_stock b)
                     (body_unit b) (body_category b) img (params_id req) st
               | None \<Rightarrow>
                   db_run_update_inventory (body_name b) (body_price b) (body_stock b)
                     (body_unit b) (body_category b) (params_id req) st) of
           (Inl msg, st') \<Rightarrow> (res_json 500 (error_json msg), st')
         | (Inr _, st') \<Rightarrow> (res_json 200 (message_json ''Updated!''), st'))"


section \<open>Observations and sample data\<close>


text \<open>A field of the body is missing or empty.\<close>

definition missing_or_empty :: "string option \<Rightarrow> bool" where
  "missing_or_empty v = (v = None \<or> v = Some [])"

text \<open>
  A small store and a request on which the theorems below are evaluated.  The stored
  image of \<open>milk\<close> begins like a PNG file, the uploaded file of the request like a JPEG
  file.
\<close>

definition rice :: product where
  "rice = \<lparr>product_id = 1, product_name = Some ''Rice'', product_price = Some 50,
            product_stock = Some 100, product_unit = Some ''kg'',
            product_category = Some ''grains'', product_image = None\<rparr>"

definition milk :: product where
  "milk = \<lparr>product_id = 4, product_name = Some ''Milk'', product_price = Some (5 / 2),
            product_stock = Some 7, product_unit = Some ''l'',
            product_category = Some '''', product_image = Some [137, 80, 78, 71]\<rparr>"

definition asha :: user where
  "asha = \<lparr>user_id = 1, user_name = ''Asha'', user_username = ''asha'',
            user_email = ''asha@example.org'', user_password = ''$2a$10$regit'',
            user_address = ''12 Hill Road''\<rparr>"

definition shop :: store where
  "shop = \<lparr>inventory = [rice, milk], inventory_seq = 6, users = [asha], users_seq = 1,
            bills = [], faults = []\<rparr>"

definition locked_shop :: store where
  "locked_shop = shop\<lparr>faults := [Some ''SQLITE_BUSY: database is locked'']\<rparr>"

definition tea :: body where
  "tea = \<lparr>body_name = Some ''Tea'', body_price = Some (199 / 100), body_stock = Some 12,
           body_unit = Some ''g'', body_category = Some ''drinks'', body_username = Some ''ravi'',
           body_email = Some ''ravi@example.org'', body_address = Some ''3 Lake View'',
           body_password = Some ''secret''\<rparr>"

definition request_for :: "nat \<Rightarrow> request" where
  "request_for i =
     \<lparr>params_id = i, query_category = None, body = tea, req_file = Some [255, 216, 255]\<rparr>"

text \<open>
  Two stand-ins for the library functions, for evaluation only: they have the interface
  of \<^verbatim>\<open>bcrypt.hash\<close> and \<^verbatim>\<open>bcrypt.compare\<close> and none of their strength.
\<close>

definition toy_hash :: "string option \<Rightarrow> nat \<Rightarrow> string + string" where
  "toy_hash password rounds =
     (case password of
        None \<Rightarrow> Inl ''Illegal arguments: undefined, number''
      | Some s \<Rightarrow> Inr (''$2a$10$'' @ rev s))"

definition toy_compare :: "string option \<Rightarrow> string \<Rightarrow> string + bool" where
  "toy_compare password hashed =
     (case password of
        None \<Rightarrow> Inl ''Illegal arguments: undefined, string''
      | Some s \<Rightarrow> Inr (hashed = ''$2a$10$'' @ rev s))"

section \<open>Facts about the store\<close>

lemma served_simps [simp]:
  "inventory (served st) = inventory st"
  "inventory_seq (served st) = inventory_seq st"
  "users (served st) = users st"
  "users_seq (served st) = users_seq st"
  "bills (served st) = bills st"
  "faults (served st) = tl (faults st)"
  by (simp_all add: served_def)

lemma quiet_0 [simp]: "quiet 0 st"
  by (simp add: quiet_def)

lemma quiet_Suc: "quiet (Suc n) st \<longleftrightarrow> reported st = None \<and> quiet n (served st)"
  by (cases "faults st") (simp_all add: quiet_def reported_def)

lemma quiet_1 [simp]: "quiet (Suc 0) st \<longleftrightarrow> reported st = None"
  by (simp add: quiet_Suc)

lemma quiet_2 [simp]: "quiet 2 st \<longleftrightarrow> reported st = None \<and> reported (served st) = None"
  by (simp add: numeral_2_eq_2 quiet_Suc)



lemma find_deleted:
  "find (\<lambda>r. product_id r = i) (filter (\<lambda>r. product_id r \<noteq> i) rows) = None"
  by (simp add: find_None_iff)

lemma filter_absent:
  "find (\<lambda>r. product_id r = i) rows = None \<Longrightarrow> filter (\<lambda>r. product_id r \<noteq> i) rows = rows"
  by (simp add: find_None_iff filter_id_conv)

section \<open>Listing products\<close>

text \<open>
  Claim C10.  For every state of the inventory table, \<^verbatim>\<open>GET /products\<close> with the
  category parameter present but equal to the empty string behaves exactly as with the
  parameter omitted: handler and store yield the same response and the same store, and
  when the store serves the statement the response lists all rows, not only those whose
  stored category is the empty string.
\<close>

theorem products_empty_category_is_omitted:
  "get_products (req\<lparr>query_category := Some ''''\<rparr>) st
     = get_products (req\<lparr>query_category := None\<rparr>) st
   \<and> (quiet 1 st \<longrightarrow>
        fst (get_products (req\<lparr>query_category := Some ''''\<rparr>) st)
          = res_json 200 (JArr (map productWithBase64 (inventory st))))"
  by (simp add: get_products_def Let_def truthy_def db_all_inventory_def)

theorem products_empty_category_is_omitted_witness:
  "quiet 1 shop
   \<and> fst (get_products (request_for 0\<lparr>query_category := Some ''''\<rparr>) shop)
       = res_json 200 (JArr [productWithBase64 rice, productWithBase64 milk])"
proof -
  have q: "quiet 1 shop"
    by (simp add: shop_def quiet_def)
  with products_empty_category_is_omitted [of "request_for 0" shop]
  have "fst (get_products (request_for 0\<lparr>query_category := Some ''''\<rparr>) shop)
          = res_json 200 (JArr (map productWithBase64 (inventory shop)))"
    by blast
  with q show ?thesis
    by (simp add: shop_def)
qed

text \<open>
  Claim C3 says that \<^verbatim>\<open>category=X\<close> returns exactly the rows whose stored category
  equals \<open>X\<close>, for every \<open>X\<close>.  In the sample store only \<open>milk\<close> has the empty
  string as its category and \<open>rice\<close> has \<^verbatim>\<open>grains\<close>, and the request with \<open>X\<close> the
  empty string returns both: the guard \<^verbatim>\<open>if (category)\<close> is false for the empty
  string.
\<close>

theorem products_category_counterexample:
  "quiet 1 shop \<and> product_category rice = Some ''grains''
   \<and> filter (\<lambda>r. product_category r = Some []) (inventory shop) = [milk]
   \<and> fst (get_products (request_for 0\<lparr>query_category := Some ''''\<rparr>) shop)
       = res_json 200 (JArr [productWithBase64 rice, productWithBase64 milk])"
  by (simp add: shop_def quiet_def rice_def milk_def get_products_def Let_def truthy_def
      db_all_inventory_def reported_def)

text \<open>
  Claim C3, amended.  For every state of the inventory table that the store serves,
  \<^verbatim>\<open>GET /products\<close> with a non-empty category parameter \<open>X\<close> returns exactly the rows
  whose stored category equals \<open>X\<close> (equality of texts, hence case-sensitive and exact;
  a row whose category is NULL is not among them), in table order, and with the
  parameter omitted it returns all rows.
\<close>

theorem products_category_filter:
  assumes "quiet 1 st"
  shows "(X \<noteq> [] \<longrightarrow>
            get_products (req\<lparr>query_category := Some X\<rparr>) st
              = (res_json 200
                   (JArr (map productWithBase64
                      (filter (\<lambda>r. product_category r = Some X) (inventory st)))),
                 served st))
         \<and> get_products (req\<lparr>query_category := None\<rparr>) st
              = (res_json 200 (JArr (map productWithBase64 (inventory st))), served st)"
  using assms
  by (simp add: get_products_def Let_def truthy_def db_all_inventory_def)

theorem products_category_filter_witness:
  "quiet 1 shop \<and> ''grains'' \<noteq> []
   \<and> fst (get_products (request_for 0\<lparr>query_category := Some ''grains''\<rparr>) shop)
       = res_json 200 (JArr [productWithBase64 rice])
   \<and> fst (get_products (request_for 0\<lparr>query_category := None\<rparr>) shop)
       = res_json 200 (JArr [productWithBase64 rice, productWithBase64 milk])"
proof -
  have q: "quiet 1 shop"
    by (simp add: shop_def quiet_def)
  from products_category_filter [OF q, of "''grains''" "request_for 0"]
  have "get_products (request_for 0\<lparr>query_category := Some ''grains''\<rparr>) shop
          = (res_json 200
               (JArr (map productWithBase64
                  (filter (\<lambda>r. product_category r = Some ''grains'') (inventory shop)))),
             served shop)"
    and "get_products (request_for 0\<lparr>query_category := None\<rparr>) shop
          = (res_json 200 (JArr (map productWithBase64 (inventory shop))), served shop)"
    by simp_all
  with q show ?thesis
    by (simp add: shop_def rice_def milk_def)
qed

section \<open>Creating, updating and deleting products\<close>



text \<open>
  Claim C2.  When the store serves the statement, \<^verbatim>\<open>PUT /updateProduct/:id\<close> answers
  200 and changes the table thus: every row with that id (an existing product) gets the
  name, price, stock, unit and category of the request; its image stays what it was when
  the request carries no file, and becomes the uploaded bytes when it carries one.  All
  other rows are as before.
\<close>

theorem update_replaces_fields:
  assumes "quiet 1 st"
  shows "fst (put_updateProduct req st) = res_json 200 (message_json ''Updated!'')
         \<and> inventory (snd (put_updateProduct req st))
             = map (\<lambda>r. if product_id r = params_id req
                         then r\<lparr>product_name := body_name (body req),
                                product_price := body_price (body req),
                                product_stock := body_stock (body req),
                                product_unit := body_unit (body req),
                                product_category := body_category (body req),
                                product_image :=
                                  (case req_file req of
                                     None \<Rightarrow> product_image r
                                   | Some img \<Rightarrow> Some img)\<rparr>
                         else r)
                 (inventory st)"
proof (cases "req_file req")
  case None
  with assms show ?thesis
    by (simp add: put_updateProduct_def db_run_update_inventory_def Let_def)
next
  case (Some img)
  with assms show ?thesis
    by (simp add: put_updateProduct_def db_run_update_inventory_image_def Let_def)
qed

theorem update_replaces_fields_witness:
  "quiet 1 shop
   \<and> inventory (snd (put_updateProduct (request_for 4) shop))
       = [rice,
          \<lparr>product_id = 4, product_name = Some ''Tea'', product_price = Some (199 / 100),
           product_stock = Some 12, product_unit = Some ''g'',
           product_category = Some ''drinks'', product_image = Some [255, 216, 255]\<rparr>]
   \<and> inventory (snd (put_updateProduct (request_for 4\<lparr>req_file := None\<rparr>) shop))
       = [rice,
          \<lparr>product_id = 4, product_name = Some ''Tea'', product_price = Some (199 / 100),
           product_stock = Some 12, product_unit = Some ''g'',
           product_category = Some ''drinks'', product_image = Some [137, 80, 78, 71]\<rparr>]"
proof -
  have q: "quiet 1 shop"
    by (simp add: shop_def quiet_def)
  note upd = update_replaces_fields [OF q]
  from upd [of "request_for 4"] upd [of "request_for 4\<lparr>req_file := None\<rparr>"] q
  show ?thesis
    by (simp add: shop_def rice_def milk_def request_for_def tea_def)
qed

text \<open>
  Claim C4.  For every id, when the store serves the two statements,
  \<^verbatim>\<open>DELETE /deleteProduct/:id\<close> answers 200 with the message \<^verbatim>\<open>Deleted!\<close> and
  \<^verbatim>\<open>GET /product/:id\<close> for the same id then answers 404.  The answer to the delete is
  the same when no row has that id; the table is then unchanged.
\<close>

theorem delete_then_get:
  assumes "quiet 2 st"
  shows "case delete_deleteProduct req st of
           (res, st1) \<Rightarrow>
             res = res_json 200 (message_json ''Deleted!'')
             \<and> fst (get_product (rq\<lparr>params_id := params_id req\<rparr>) st1)
                 = res_json 404 (error_json ''Product not found'')
             \<and> (find (\<lambda>r. product_id r = params_id req) (inventory st) = None \<longrightarrow>
                   res = res_json 200 (message_json ''Deleted!'')
                   \<and> inventory st1 = inventory st)"
proof -
  define st1 where
    "st1 = served (st\<lparr>inventory := filter (\<lambda>r. product_id r \<noteq> params_id req) (inventory st)\<rparr>)"
  from assms have q: "reported st = None" "reported (served st) = None"
    by simp_all
  have del: "delete_deleteProduct req st = (res_json 200 (message_json ''Deleted!''), st1)"
    using q(1) by (simp add: delete_deleteProduct_def db_run_delete_inventory_def st1_def)
  have q1: "reported st1 = None"
    using q(2) by (simp add: st1_def reported_def served_def)
  have "db_get_inventory (params_id req) st1 = (Inr None, served st1)"
    using q1 by (simp add: db_get_inventory_def) (simp add: st1_def find_deleted)
  then have gone: "fst (get_product (rq\<lparr>params_id := params_id req\<rparr>) st1)
                     = res_json 404 (error_json ''Product not found'')"
    by (simp add: get_product_def)
  have "inventory st1 = inventory st"
    if "find (\<lambda>r. product_id r = params_id req) (inventory st) = None"
    using that by (simp add: st1_def filter_absent)
  with gone show ?thesis
    by (simp add: del)
qed

theorem delete_then_get_witness:
  "quiet 2 shop
   \<and> find (\<lambda>r. product_id r = params_id (request_for 9)) (inventory shop) = None
   \<and> fst (delete_deleteProduct (request_for 9) shop) = res_json 200 (message_json ''Deleted!'')
   \<and> inventory (snd (delete_deleteProduct (request_for 9) shop)) = inventory shop
   \<and> fst (delete_deleteProduct (request_for 4) shop) = res_json 200 (message_json ''Deleted!'')
   \<and> fst (get_product (request_for 4) (snd (delete_deleteProduct (request_for 4) shop)))
       = res_json 404 (error_json ''Product not found'')"
proof -
  have q: "quiet 2 shop"
    by (simp add: shop_def quiet_def)
  have absent: "find (\<lambda>r. product_id r = params_id (request_for 9)) (inventory shop) = None"
    by (simp add: shop_def rice_def milk_def request_for_def)
  have r: "request_for 4\<lparr>params_id := params_id (request_for 4)\<rparr> = request_for 4"
    by (simp add: request_for_def)
  from delete_then_get [OF q, of "request_for 9" "request_for 9"] absent
  have "fst (delete_deleteProduct (request_for 9) shop) = res_json 200 (message_json ''Deleted!'')"
    and "inventory (snd (delete_deleteProduct (request_for 9) shop)) = inventory shop"
    by (auto split: prod.splits)
  moreover from delete_then_get [OF q, of "request_for 4" "request_for 4"]
  have "fst (delete_deleteProduct (request_for 4) shop) = res_json 200 (message_json ''Deleted!'')"
    and "fst (get_product (request_for 4) (snd (delete_deleteProduct (request_for 4) shop)))
           = res_json 404 (error_json ''Product not found'')"
    by (auto simp: r split: prod.splits)
  ultimately show ?thesis
    using q absent by simp
qed

section \<open>Serving images\<close>



section \<open>Registration and login\<close>

lemma truthy_iff: "truthy v \<longleftrightarrow> \<not> missing_or_empty v"
  by (cases v) (simp_all add: truthy_def missing_or_empty_def)

lemma find_conflict:
  "(\<exists>row. find (\<lambda>u. Some (user_username u) = username \<or> Some (user_email u) = email) us
             = Some row)
   \<longleftrightarrow> (\<exists>u \<in> set us. Some (user_username u) = username \<or> Some (user_email u) = email)"
  using find_None_iff [of "\<lambda>u. Some (user_username u) = username \<or> Some (user_email u) = email" us]
  by (cases "find (\<lambda>u. Some (user_username u) = username \<or> Some (user_email u) = email) us")
    auto

lemma present_field: "\<not> missing_or_empty v \<Longrightarrow> \<exists>s. v = Some s \<and> s \<noteq> []"
  by (cases v) (simp_all add: missing_or_empty_def)

lemma register_inserts:
  assumes vals: "body_name (body req) = Some n" "body_username (body req) = Some u"
      "body_email (body req) = Some e" "body_address (body req) = Some a"
      "body_password (body req) = Some p"
    and nonempty: "n \<noteq> []" "u \<noteq> []" "e \<noteq> []" "a \<noteq> []" "p \<noteq> []"
    and free: "\<forall>x \<in> set (users st). user_username x \<noteq> u \<and> user_email x \<noteq> e"
    and q: "quiet 2 st"
    and h: "bcrypt_hash (Some p) 10 = Inr hashedPassword"
  shows "post_register bcrypt_hash req st
           = (res_json 201 (message_json ''User registered successfully''),
              served (served st)
                \<lparr>users := users st @
                   [\<lparr>user_id = Suc (max (users_seq st) (largest_user_id (users st))),
                     user_name = n, user_username = u, user_email = e,
                     user_password = hashedPassword, user_address = a\<rparr>],
                 users_seq := Suc (max (users_seq st) (largest_user_id (users st)))\<rparr>)"
proof -
  from q have q': "reported st = None" "reported (served st) = None"
    by simp_all
  have "find (\<lambda>x. Some (user_username x) = Some u \<or> Some (user_email x) = Some e) (users st)
          = None"
    using free by (simp add: find_None_iff)
  then have sel: "db_get_users_username_or_email (Some u) (Some e) st = (Inr None, served st)"
    using q'(1) by (simp add: db_get_users_username_or_email_def)
  from free have uniq: "\<not> list_ex (\<lambda>r. user_username r = u) (users st)"
    "\<not> list_ex (\<lambda>r. user_email r = e) (users st)"
    by (auto simp: list_ex_iff)
  have ins: "db_run_insert_users (Some n) (Some u) (Some e) (Some hashedPassword) (Some a)
               (served st)
             = (Inr (Suc (max (users_seq st) (largest_user_id (users st)))),
                served (served st)
                  \<lparr>users := users st @
                     [\<lparr>user_id = Suc (max (users_seq st) (largest_user_id (users st))),
                       user_name = n, user_username = u, user_email = e,
                       user_password = hashedPassword, user_address = a\<rparr>],
                   users_seq := Suc (max (users_seq st) (largest_user_id (users st)))\<rparr>)"
    using q'(2) uniq by (simp add: db_run_insert_users_def Let_def served_def)
  from sel h ins nonempty show ?thesis
    by (simp add: post_register_def Let_def truthy_def vals)
qed

text \<open>
  A registration that passes the check of the fields and the look-up for a conflicting
  row, and whose password \<^verbatim>\<open>bcrypt.hash\<close> turns into \<open>hashedPassword\<close>, appends one row
  to \<^verbatim>\<open>users\<close>.  The row's password column holds \<open>hashedPassword\<close>: the submitted
  password reaches the store only through the library.
\<close>

lemma register_succeeds:
  assumes "\<not> missing_or_empty (body_name (body req))"
    and "\<not> missing_or_empty (body_username (body req))"
    and "\<not> missing_or_empty (body_email (body req))"
    and "\<not> missing_or_empty (body_address (body req))"
    and "\<not> missing_or_empty (body_password (body req))"
    and free: "\<not> (\<exists>x \<in> set (users st).
              Some (user_username x) = body_username (body req)
              \<or> Some (user_email x) = body_email (body req))"
    and q: "quiet 2 st"
    and h: "bcrypt_hash (body_password (body req)) 10 = Inr hashedPassword"
  shows "fst (post_register bcrypt_hash req st)
           = res_json 201 (message_json ''User registered successfully'')"
    and "map user_password (users (snd (post_register bcrypt_hash req st)))
           = map user_password (users st) @ [hashedPassword]"
proof -
  from assms(1-5) obtain n u e a p where vals:
    "body_name (body req) = Some n" "body_username (body req) = Some u"
    "body_email (body req) = Some e" "body_address (body req) = Some a"
    "body_password (body req) = Some p"
    and nonempty: "n \<noteq> []" "u \<noteq> []" "e \<noteq> []" "a \<noteq> []" "p \<noteq> []"
    by (metis present_field)
  from free have fr: "\<forall>x \<in> set (users st). user_username x \<noteq> u \<and> user_email x \<noteq> e"
    by (simp add: vals)
  from h have hh: "bcrypt_hash (Some p) 10 = Inr hashedPassword"
    by (simp add: vals)
  have ins: "post_register bcrypt_hash req st
           = (res_json 201 (message_json ''User registered successfully''),
              served (served st)
                \<lparr>users := users st @
                   [\<lparr>user_id = Suc (max (users_seq st) (largest_user_id (users st))),
                     user_name = n, user_username = u, user_email = e,
                     user_password = hashedPassword, user_address = a\<rparr>],
                 users_seq := Suc (max (users_seq st) (largest_user_id (users st)))\<rparr>)"
    by (rule register_inserts [where bcrypt_hash = bcrypt_hash, OF vals nonempty fr q hh])
  show "fst (post_register bcrypt_hash req st)
           = res_json 201 (message_json ''User registered successfully'')"
    by (simp add: ins)
  show "map user_password (users (snd (post_register bcrypt_hash req st)))
           = map user_password (users st) @ [hashedPassword]"
    by (simp add: ins)
qed

text \<open>
  The handler reads the password in two places only: the test that it is there, and the
  call of \<^verbatim>\<open>bcrypt.hash\<close>.  Two registrations that differ in nothing but the password,
  and whose passwords the library turns into the same result, leave the same store and
  get the same response.
\<close>

lemma register_password_through_hash:
  assumes "body req' = (body req)\<lparr>body_password := Some p'\<rparr>"
    and "body_password (body req) = Some p" and "p \<noteq> []" and "p' \<noteq> []"
    and "bcrypt_hash (Some p') 10 = bcrypt_hash (Some p) 10"
  shows "post_register bcrypt_hash req' st = post_register bcrypt_hash req st"
proof -
  from assms(1) have same: "body_name (body req') = body_name (body req)"
    "body_username (body req') = body_username (body req)"
    "body_email (body req') = body_email (body req)"
    "body_address (body req') = body_address (body req)"
    "body_password (body req') = Some p'"
    by simp_all
  from assms(3,4) show ?thesis
    unfolding post_register_def Let_def same assms(2) assms(5) by (simp add: truthy_def)
qed

text \<open>
  Claim C5.  \<^verbatim>\<open>POST /register\<close> answers 400 if any of name, username, email, address
  and password is missing or empty.  When the store serves the look-up, it answers 400 if
  a user row has the given username or the given email (either one suffices).  When all
  five fields are there, no row has the username or the email, the store serves both
  statements and \<^verbatim>\<open>bcrypt.hash\<close> delivers a hash, it answers 201.
\<close>

theorem register_responses:
  "(missing_or_empty (body_name (body req)) \<or> missing_or_empty (body_username (body req))
      \<or> missing_or_empty (body_email (body req)) \<or> missing_or_empty (body_address (body req))
      \<or> missing_or_empty (body_password (body req)) \<longrightarrow>
      fst (post_register bcrypt_hash req st)
        = res_json 400 (message_json ''All fields are required''))
   \<and> (quiet 1 st
        \<and> (\<exists>u \<in> set (users st).
               Some (user_username u) = body_username (body req)
               \<or> Some (user_email u) = body_email (body req)) \<longrightarrow>
        status (fst (post_register bcrypt_hash req st)) = 400)
   \<and> (quiet 2 st
        \<and> \<not> missing_or_empty (body_name (body req))
        \<and> \<not> missing_or_empty (body_username (body req))
        \<and> \<not> missing_or_empty (body_email (body req))
        \<and> \<not> missing_or_empty (body_address (body req))
        \<and> \<not> missing_or_empty (body_password (body req))
        \<and> \<not> (\<exists>u \<in> set (users st).
                 Some (user_username u) = body_username (body req)
                 \<or> Some (user_email u) = body_email (body req))
        \<and> (\<exists>hashedPassword. bcrypt_hash (body_password (body req)) 10 = Inr hashedPassword) \<longrightarrow>
        fst (post_register bcrypt_hash req st)
          = res_json 201 (message_json ''User registered successfully''))"
proof (intro conjI impI)
  assume "missing_or_empty (body_name (body req)) \<or> missing_or_empty (body_username (body req))
      \<or> missing_or_empty (body_email (body req)) \<or> missing_or_empty (body_address (body req))
      \<or> missing_or_empty (body_password (body req))"
  then show "fst (post_register bcrypt_hash req st)
               = res_json 400 (message_json ''All fields are required'')"
    by (auto simp: post_register_def Let_def truthy_iff)
next
  assume a: "quiet 1 st
        \<and> (\<exists>u \<in> set (users st).
               Some (user_username u) = body_username (body req)
               \<or> Some (user_email u) = body_email (body req))"
  then obtain row where
    "find (\<lambda>u. Some (user_username u) = body_username (body req)
               \<or> Some (user_email u) = body_email (body req)) (users st) = Some row"
    using find_conflict [of "body_username (body req)" "body_email (body req)" "users st"]
    by blast
  with a have "db_get_users_username_or_email (body_username (body req)) (body_email (body req)) st
                 = (Inr (Some row), served st)"
    by (simp add: db_get_users_username_or_email_def)
  then show "status (fst (post_register bcrypt_hash req st)) = 400"
    by (simp add: post_register_def Let_def res_json_def)
next
  assume a: "quiet 2 st
        \<and> \<not> missing_or_empty (body_name (body req))
        \<and> \<not> missing_or_empty (body_username (body req))
        \<and> \<not> missing_or_empty (body_email (body req))
        \<and> \<not> missing_or_empty (body_address (body req))
        \<and> \<not> missing_or_empty (body_password (body req))
        \<and> \<not> (\<exists>u \<in> set (users st).
                 Some (user_username u) = body_username (body req)
                 \<or> Some (user_email u) = body_email (body req))
        \<and> (\<exists>hashedPassword. bcrypt_hash (body_password (body req)) 10 = Inr hashedPassword)"
  then obtain hashedPassword where
    "bcrypt_hash (body_password (body req)) 10 = Inr hashedPassword"
    by blast
  with a show "fst (post_register bcrypt_hash req st)
                 = res_json 201 (message_json ''User registered successfully'')"
    by (simp add: register_succeeds(1))
qed

theorem register_responses_witness:
  "missing_or_empty (body_email (body (request_for 0\<lparr>body := tea\<lparr>body_email := Some []\<rparr>\<rparr>)))
   \<and> fst (post_register toy_hash (request_for 0\<lparr>body := tea\<lparr>body_email := Some []\<rparr>\<rparr>) shop)
       = res_json 400 (message_json ''All fields are required'')
   \<and> quiet 1 shop
   \<and> user_username asha = ''asha'' \<and> user_email asha \<noteq> ''ravi@example.org''
   \<and> status (fst (post_register toy_hash
                     (request_for 0\<lparr>body := tea\<lparr>body_username := Some ''asha''\<rparr>\<rparr>) shop)) = 400
   \<and> quiet 2 shop
   \<and> toy_hash (body_password (body (request_for 0))) 10 = Inr ''$2a$10$terces''
   \<and> fst (post_register toy_hash (request_for 0) shop)
       = res_json 201 (message_json ''User registered successfully'')"
proof -
  have q: "quiet 1 shop" "quiet 2 shop"
    by (simp_all add: shop_def quiet_def)
  have h: "toy_hash (body_password (body (request_for 0))) 10 = Inr ''$2a$10$terces''"
    by (simp add: toy_hash_def request_for_def tea_def)
  have a: "user_username asha = ''asha''" "user_email asha \<noteq> ''ravi@example.org''"
    by (simp_all add: asha_def)
  have m: "missing_or_empty
             (body_email (body (request_for 0\<lparr>body := tea\<lparr>body_email := Some []\<rparr>\<rparr>)))"
    by (simp add: missing_or_empty_def)
  have c: "\<exists>u \<in> set (users shop).
             Some (user_username u)
               = body_username (body (request_for 0\<lparr>body := tea\<lparr>body_username := Some ''asha''\<rparr>\<rparr>))
             \<or> Some (user_email u)
               = body_email (body (request_for 0\<lparr>body := tea\<lparr>body_username := Some ''asha''\<rparr>\<rparr>))"
    by (simp add: shop_def asha_def)
  have f: "\<not> missing_or_empty (body_name (body (request_for 0)))"
    "\<not> missing_or_empty (body_username (body (request_for 0)))"
    "\<not> missing_or_empty (body_email (body (request_for 0)))"
    "\<not> missing_or_empty (body_address (body (request_for 0)))"
    "\<not> missing_or_empty (body_password (body (request_for 0)))"
    "\<not> (\<exists>u \<in> set (users shop).
          Some (user_username u) = body_username (body (request_for 0))
          \<or> Some (user_email u) = body_email (body (request_for 0)))"
    by (simp_all add: missing_or_empty_def request_for_def tea_def shop_def asha_def)
  note register = register_responses [where bcrypt_hash = toy_hash and st = shop]
  from register [where req = "request_for 0\<lparr>body := tea\<lparr>body_email := Some []\<rparr>\<rparr>"] m
  have "fst (post_register toy_hash (request_for 0\<lparr>body := tea\<lparr>body_email := Some []\<rparr>\<rparr>) shop)
          = res_json 400 (message_json ''All fields are required'')"
    by blast
  moreover
  from register [where req = "request_for 0\<lparr>body := tea\<lparr>body_username := Some ''asha''\<rparr>\<rparr>"]
    q(1) c
  have "status (fst (post_register toy_hash
                       (request_for 0\<lparr>body := tea\<lparr>body_username := Some ''asha''\<rparr>\<rparr>) shop)) = 400"
    by blast
  moreover
  from register [where req = "request_for 0"] q(2) f h
  have "fst (post_register toy_hash (request_for 0) shop)
          = res_json 201 (message_json ''User registered successfully'')"
    by blast
  ultimately show ?thesis
    using q h a m by simp
qed

text \<open>
  Claim C6.  When the store serves the look-up, \<^verbatim>\<open>POST /login\<close> answers 401 with the
  message \<^verbatim>\<open>Invalid Username!\<close> if no user row has the given username; 401 with the
  different message \<^verbatim>\<open>Invalid Password!\<close> if the row with that username is found and
  \<^verbatim>\<open>bcrypt.compare\<close> finds that the password does not verify against the stored hash;
  and 200 with \<^verbatim>\<open>success: true\<close> if the row is found and the password verifies.
  A comparison that is rejected rather than answered is none of the three cases.
\<close>

theorem login_responses:
  assumes "quiet 1 st"
  shows "((\<forall>u \<in> set (users st). Some (user_username u) \<noteq> body_username (body req)) \<longrightarrow>
            fst (post_login bcrypt_compare req st)
              = Some (res_json 401 (login_json False ''Invalid Username!'')))
         \<and> (\<forall>user.
               find (\<lambda>u. Some (user_username u) = body_username (body req)) (users st) = Some user
               \<and> bcrypt_compare (body_password (body req)) (user_password user) = Inr False \<longrightarrow>
               fst (post_login bcrypt_compare req st)
                 = Some (res_json 401 (login_json False ''Invalid Password!'')))
         \<and> (\<forall>user.
               find (\<lambda>u. Some (user_username u) = body_username (body req)) (users st) = Some user
               \<and> bcrypt_compare (body_password (body req)) (user_password user) = Inr True \<longrightarrow>
               fst (post_login bcrypt_compare req st)
                 = Some (res_json 200 (login_json True ''Login successful!'')))
         \<and> login_json False ''Invalid Username!'' \<noteq> login_json False ''Invalid Password!''"
proof -
  from assms have q: "reported st = None"
    by simp
  have unknown: "fst (post_login bcrypt_compare req st)
                   = Some (res_json 401 (login_json False ''Invalid Username!''))"
    if "\<forall>u \<in> set (users st). Some (user_username u) \<noteq> body_username (body req)"
  proof -
    from that
    have "find (\<lambda>u. Some (user_username u) = body_username (body req)) (users st) = None"
      by (simp add: find_None_iff)
    with q show ?thesis
      by (simp add: post_login_def Let_def db_get_users_username_def)
  qed
  have known: "fst (post_login bcrypt_compare req st)
                 = Some (if valid then res_json 200 (login_json True ''Login successful!'')
                         else res_json 401 (login_json False ''Invalid Password!''))"
    if "find (\<lambda>u. Some (user_username u) = body_username (body req)) (users st) = Some user"
      and "bcrypt_compare (body_password (body req)) (user_password user) = Inr valid"
    for user valid
    using that q by (simp add: post_login_def Let_def db_get_users_username_def)
  have "login_json False ''Invalid Username!'' \<noteq> login_json False ''Invalid Password!''"
    by (simp add: login_json_def)
  with unknown known [where valid = True] known [where valid = False] show ?thesis
    by simp
qed

theorem login_responses_witness:
  "quiet 1 shop
   \<and> fst (post_login toy_compare (request_for 0) shop)
       = Some (res_json 401 (login_json False ''Invalid Username!''))
   \<and> find (\<lambda>u. Some (user_username u) = Some ''asha'') (users shop) = Some asha
   \<and> toy_compare (Some ''secret'') (user_password asha) = Inr False
   \<and> fst (post_login toy_compare
             (request_for 0\<lparr>body := tea\<lparr>body_username := Some ''asha''\<rparr>\<rparr>) shop)
       = Some (res_json 401 (login_json False ''Invalid Password!''))
   \<and> toy_compare (Some ''tiger'') (user_password asha) = Inr True
   \<and> fst (post_login toy_compare
             (request_for 0\<lparr>body := tea\<lparr>body_username := Some ''asha'',
                                        body_password := Some ''tiger''\<rparr>\<rparr>) shop)
       = Some (res_json 200 (login_json True ''Login successful!''))"
proof -
  have q: "quiet 1 shop"
    by (simp add: shop_def quiet_def)
  have nobody: "\<forall>u \<in> set (users shop). Some (user_username u) \<noteq> body_username (body (request_for 0))"
    by (simp add: shop_def asha_def request_for_def tea_def)
  have found: "find (\<lambda>u. Some (user_username u) = Some ''asha'') (users shop) = Some asha"
    by (simp add: shop_def asha_def)
  have wrong: "toy_compare (Some ''secret'') (user_password asha) = Inr False"
    and right: "toy_compare (Some ''tiger'') (user_password asha) = Inr True"
    by (simp_all add: toy_compare_def asha_def)
  note login = login_responses [OF q, where bcrypt_compare = toy_compare]
  from login [where req = "request_for 0"] nobody
  have "fst (post_login toy_compare (request_for 0) shop)
          = Some (res_json 401 (login_json False ''Invalid Username!''))"
    by blast
  moreover
  from login [where req = "request_for 0\<lparr>body := tea\<lparr>body_username := Some ''asha''\<rparr>\<rparr>"]
    found wrong
  have "fst (post_login toy_compare
               (request_for 0\<lparr>body := tea\<lparr>body_username := Some ''asha''\<rparr>\<rparr>) shop)
          = Some (res_json 401 (login_json False ''Invalid Password!''))"
    by (simp add: tea_def)
  moreover
  from login [where req = "request_for 0\<lparr>body := tea\<lparr>body_username := Some ''asha'',
                                                      body_password := Some ''tiger''\<rparr>\<rparr>"]
    found right
  have "fst (post_login toy_compare
               (request_for 0\<lparr>body := tea\<lparr>body_username := Some ''asha'',
                                          body_password := Some ''tiger''\<rparr>\<rparr>) shop)
          = Some (res_json 200 (login_json True ''Login successful!''))"
    by (simp add: tea_def)
  ultimately show ?thesis
    using q found wrong right by simp
qed

section \<open>Store failures\<close>

text \<open>
  Claim C8 says that every handler answers a failure of the store with status 500 and
  the store's error text.  The image handler does not: on the locked sample store it
  answers 404 with the text \<^verbatim>\<open>Image not found\<close>, since its guard
  \<^verbatim>\<open>err || !row || !row.image\<close> sends a failure the way of a missing image.
\<close>

theorem store_failure_counterexample:
  "reported locked_shop = Some ''SQLITE_BUSY: database is locked''
   \<and> status (fst (get_image (request_for 4) locked_shop)) = 404
   \<and> content (fst (get_image (request_for 4) locked_shop)) = Text ''Image not found''"
  by (simp add: locked_shop_def shop_def reported_def get_image_def db_get_inventory_def
      not_found_def res_send_def)

text \<open>
  Claim C8, amended.  When the store reports a failure with the error text \<open>msg\<close> for
  the statement of \<^verbatim>\<open>GET /products\<close>, \<^verbatim>\<open>POST /addProduct\<close>, \<^verbatim>\<open>GET /getInventory\<close>,
  \<^verbatim>\<open>GET /product/:id\<close>, \<^verbatim>\<open>GET /getBills\<close>, \<^verbatim>\<open>DELETE /deleteProduct/:id\<close> or
  \<^verbatim>\<open>PUT /updateProduct/:id\<close>, the handler answers 500 with the body
  \<^verbatim>\<open>{error: msg}\<close>.  \<^verbatim>\<open>GET /image/:id\<close> answers 404 with \<^verbatim>\<open>Image not found\<close>.
  \<^verbatim>\<open>POST /login\<close> and \<^verbatim>\<open>POST /register\<close> (once the five fields are there) answer 500
  with the fixed message \<^verbatim>\<open>Database error\<close>, and a registration whose look-up is
  served and whose insert fails answers 500 with \<^verbatim>\<open>Error inserting user\<close>; neither
  carries the store's error text.
\<close>

theorem store_failure_responses:
  "(reported st = Some msg \<longrightarrow>
      fst (get_products req st) = res_json 500 (error_json msg)
      \<and> fst (post_addProduct req st) = res_json 500 (error_json msg)
      \<and> fst (get_getInventory req st) = res_json 500 (error_json msg)
      \<and> fst (get_product req st) = res_json 500 (error_json msg)
      \<and> fst (get_getBills req st) = res_json 500 (error_json msg)
      \<and> fst (delete_deleteProduct req st) = res_json 500 (error_json msg)
      \<and> fst (put_updateProduct req st) = res_json 500 (error_json msg)
      \<and> fst (get_image req st) = res_send 404 ''Image not found''
      \<and> fst (post_login bcrypt_compare req st)
          = Some (res_json 500 (login_json False ''Database error''))
      \<and> (\<not> missing_or_empty (body_name (body req))
           \<and> \<not> missing_or_empty (body_username (body req))
           \<and> \<not> missing_or_empty (body_email (body req))
           \<and> \<not> missing_or_empty (body_address (body req))
           \<and> \<not> missing_or_empty (body_password (body req)) \<longrightarrow>
           fst (post_register bcrypt_hash req st)
             = res_json 500 (message_json ''Database error'')))
   \<and> (reported st = None \<and> reported (served st) = Some msg
        \<and> \<not> missing_or_empty (body_name (body req))
        \<and> \<not> missing_or_empty (body_username (body req))
        \<and> \<not> missing_or_empty (body_email (body req))
        \<and> \<not> missing_or_empty (body_address (body req))
        \<and> \<not> missing_or_empty (body_password (body req))
        \<and> \<not> (\<exists>u \<in> set (users st).
                 Some (user_username u) = body_username (body req)
                 \<or> Some (user_email u) = body_email (body req))
        \<and> (\<exists>hashedPassword. bcrypt_hash (body_password (body req)) 10 = Inr hashedPassword) \<longrightarrow>
        fst (post_register bcrypt_hash req st)
          = res_json 500 (message_json ''Error inserting user''))"
proof (intro conjI impI)
  assume f: "reported st = Some msg"
  show "fst (get_products req st) = res_json 500 (error_json msg)"
    using f by (simp add: get_products_def Let_def db_all_inventory_def)
  show "fst (post_addProduct req st) = res_json 500 (error_json msg)"
    using f by (simp add: post_addProduct_def Let_def db_run_insert_inventory_def)
  show "fst (get_getInventory req st) = res_json 500 (error_json msg)"
    using f by (simp add: get_getInventory_def db_all_inventory_def)
  show "fst (get_product req st) = res_json 500 (error_json msg)"
    using f by (simp add: get_product_def db_get_inventory_def)
  show "fst (get_getBills req st) = res_json 500 (error_json msg)"
    using f by (simp add: get_getBills_def db_all_bills_def)
  show "fst (delete_deleteProduct req st) = res_json 500 (error_json msg)"
    using f by (simp add: delete_deleteProduct_def db_run_delete_inventory_def)
  show "fst (put_updateProduct req st) = res_json 500 (error_json msg)"
    using f
    by (cases "req_file req")
      (simp_all add: put_updateProduct_def Let_def db_run_update_inventory_def
        db_run_update_inventory_image_def)
  show "fst (get_image req st) = res_send 404 ''Image not found''"
    using f by (simp add: get_image_def db_get_inventory_def not_found_def)
  show "fst (post_login bcrypt_compare req st)
          = Some (res_json 500 (login_json False ''Database error''))"
    using f by (simp add: post_login_def Let_def db_get_users_username_def)
  show "fst (post_register bcrypt_hash req st) = res_json 500 (message_json ''Database error'')"
    if "\<not> missing_or_empty (body_name (body req))
        \<and> \<not> missing_or_empty (body_username (body req))
        \<and> \<not> missing_or_empty (body_email (body req))
        \<and> \<not> missing_or_empty (body_address (body req))
        \<and> \<not> missing_or_empty (body_password (body req))"
    using that f
    by (simp add: post_register_def Let_def truthy_iff db_get_users_username_or_email_def)
next
  assume a: "reported st = None \<and> reported (served st) = Some msg
        \<and> \<not> missing_or_empty (body_name (body req))
        \<and> \<not> missing_or_empty (body_username (body req))
        \<and> \<not> missing_or_empty (body_email (body req))
        \<and> \<not> missing_or_empty (body_address (body req))
        \<and> \<not> missing_or_empty (body_password (body req))
        \<and> \<not> (\<exists>u \<in> set (users st).
                 Some (user_username u) = body_username (body req)
                 \<or> Some (user_email u) = body_email (body req))
        \<and> (\<exists>hashedPassword. bcrypt_hash (body_password (body req)) 10 = Inr hashedPassword)"
  then obtain hashedPassword where
    h: "bcrypt_hash (body_password (body req)) 10 = Inr hashedPassword"
    by blast
  from a have "find (\<lambda>x. Some (user_username x) = body_username (body req)
                         \<or> Some (user_email x) = body_email (body req)) (users st) = None"
    by (simp add: find_None_iff)
  with a have sel: "db_get_users_username_or_email (body_username (body req))
                      (body_email (body req)) st = (Inr None, served st)"
    by (simp add: db_get_users_username_or_email_def)
  from a have ins: "db_run_insert_users (body_name (body req)) (body_username (body req))
                      (body_email (body req)) (Some hashedPassword) (body_address (body req))
                      (served st) = (Inl msg, served (served st))"
    by (simp add: db_run_insert_users_def)
  from a sel h ins
  show "fst (post_register bcrypt_hash req st) = res_json 500 (message_json ''Error inserting user'')"
    by (simp add: post_register_def Let_def truthy_iff)
qed

theorem store_failure_responses_witness:
  "reported locked_shop = Some ''SQLITE_BUSY: database is locked''
   \<and> fst (get_products (request_for 4) locked_shop)
       = res_json 500 (error_json ''SQLITE_BUSY: database is locked'')
   \<and> fst (post_addProduct (request_for 4) locked_shop)
       = res_json 500 (error_json ''SQLITE_BUSY: database is locked'')
   \<and> fst (get_product (request_for 4) locked_shop)
       = res_json 500 (error_json ''SQLITE_BUSY: database is locked'')
   \<and> fst (delete_deleteProduct (request_for 4) locked_shop)
       = res_json 500 (error_json ''SQLITE_BUSY: database is locked'')
   \<and> fst (put_updateProduct (request_for 4) locked_shop)
       = res_json 500 (error_json ''SQLITE_BUSY: database is locked'')
   \<and> fst (get_image (request_for 4) locked_shop) = res_send 404 ''Image not found''
   \<and> fst (post_login toy_compare (request_for 4) locked_shop)
       = Some (res_json 500 (login_json False ''Database error''))
   \<and> fst (post_register toy_hash (request_for 4) locked_shop)
       = res_json 500 (message_json ''Database error'')
   \<and> reported (shop\<lparr>faults := [None, Some ''SQLITE_FULL: database or disk is full'']\<rparr>) = None
   \<and> fst (post_register toy_hash (request_for 4)
             (shop\<lparr>faults := [None, Some ''SQLITE_FULL: database or disk is full'']\<rparr>))
       = res_json 500 (message_json ''Error inserting user'')"
proof -
  have locked: "reported locked_shop = Some ''SQLITE_BUSY: database is locked''"
    by (simp add: locked_shop_def reported_def)
  have full: "reported (shop\<lparr>faults := [None, Some ''SQLITE_FULL: database or disk is full'']\<rparr>)
                = None"
    "reported (served (shop\<lparr>faults := [None, Some ''SQLITE_FULL: database or disk is full'']\<rparr>))
       = Some ''SQLITE_FULL: database or disk is full''"
    by (simp_all add: reported_def served_def)
  have f: "\<not> missing_or_empty (body_name (body (request_for 4)))"
    "\<not> missing_or_empty (body_username (body (request_for 4)))"
    "\<not> missing_or_empty (body_email (body (request_for 4)))"
    "\<not> missing_or_empty (body_address (body (request_for 4)))"
    "\<not> missing_or_empty (body_password (body (request_for 4)))"
    by (simp_all add: missing_or_empty_def request_for_def tea_def)
  have free: "\<not> (\<exists>u \<in> set (users (shop\<lparr>faults := [None, Some ''SQLITE_FULL: database or disk is full'']\<rparr>)).
          Some (user_username u) = body_username (body (request_for 4))
          \<or> Some (user_email u) = body_email (body (request_for 4)))"
    by (simp add: request_for_def tea_def shop_def asha_def)
  have h: "\<exists>hashedPassword. toy_hash (body_password (body (request_for 4))) 10 = Inr hashedPassword"
    by (simp add: toy_hash_def request_for_def tea_def)
  note fail = store_failure_responses
    [where req = "request_for 4" and bcrypt_hash = toy_hash and bcrypt_compare = toy_compare]
  from fail [where st = locked_shop and msg = "''SQLITE_BUSY: database is locked''"] locked f
  have "fst (get_products (request_for 4) locked_shop)
       = res_json 500 (error_json ''SQLITE_BUSY: database is locked'')"
    and "fst (post_addProduct (request_for 4) locked_shop)
       = res_json 500 (error_json ''SQLITE_BUSY: database is locked'')"
    and "fst (get_product (request_for 4) locked_shop)
       = res_json 500 (error_json ''SQLITE_BUSY: database is locked'')"
    and "fst (delete_deleteProduct (request_for 4) locked_shop)
       = res_json 500 (error_json ''SQLITE_BUSY: database is locked'')"
    and "fst (put_updateProduct (request_for 4) locked_shop)
       = res_json 500 (error_json ''SQLITE_BUSY: database is locked'')"
    and "fst (get_image (request_for 4) locked_shop) = res_send 404 ''Image not found''"
    and "fst (post_login toy_compare (request_for 4) locked_shop)
       = Some (res_json 500 (login_json False ''Database error''))"
    and "fst (post_register toy_hash (request_for 4) locked_shop)
       = res_json 500 (message_json ''Database error'')"
    by blast+
  moreover
  from fail [where st = "shop\<lparr>faults := [None, Some ''SQLITE_FULL: database or disk is full'']\<rparr>"
               and msg = "''SQLITE_FULL: database or disk is full''"] full f free h
  have "fst (post_register toy_hash (request_for 4)
             (shop\<lparr>faults := [None, Some ''SQLITE_FULL: database or disk is full'']\<rparr>))
       = res_json 500 (message_json ''Error inserting user'')"
    by blast
  ultimately show ?thesis
    using locked full(1) by simp
qed

end
